theory Spec2Isabelle
  imports Main
begin

section \<open>Data model of the bridge (Example/n8n-bridge.ts)\<close>

text \<open>
  The TypeScript unions of string literals (\<open>ContactsMode\<close>, \<open>GroupDefaultRule\<close>,
  \<open>AutomationRule\<close>) are only compile-time annotations: at run time the rows come from the
  datastore as plain strings, and the code compares them with \<open>===\<close>. They are strings here,
  so that the fall-through branches of the source stay reachable. A string is false in a
  condition of the source exactly when it is empty.
\<close>

record AppSettingsRow =
  ignore_from_me :: bool
  contacts_mode :: string
  groups_default_rule :: string
  reply_send_to :: string
  reply_prefix :: string

text \<open>The field \<open>type\<close> of the source is \<open>etype\<close> here.\<close>

record EntityRuleRow =
  jid :: string
  etype :: string
  name :: string
  rule :: string

record EntityRules =
  contacts :: "string \<rightharpoonup> EntityRuleRow"
  groups :: "string \<rightharpoonup> EntityRuleRow"

record RuntimeConfig =
  settings :: AppSettingsRow
  entityRules :: EntityRules

text \<open>
  The part of \<open>proto.IMessage\<close> that the bridge reads. An absent (undefined or null) field is
  \<open>None\<close>. The image, video and document messages have the same two fields of interest and
  share one record. The field \<open>text\<close> of the extended text message is \<open>etext\<close>, and its
  \<open>contextInfo\<close> is \<open>econtextInfo\<close>.
\<close>

record ContextInfo =
  mentionedJid :: "string list option"

record ExtendedTextMessage =
  etext :: "string option"
  econtextInfo :: "ContextInfo option"

record MediaMessage =
  caption :: "string option"
  contextInfo :: "ContextInfo option"

record IMessage =
  conversation :: "string option"
  extendedTextMessage :: "ExtendedTextMessage option"
  imageMessage :: "MediaMessage option"
  videoMessage :: "MediaMessage option"
  documentMessage :: "MediaMessage option"

section \<open>Rule engine\<close>

text \<open>\<open>a || b\<close> on values that may be absent; a present array is true even when empty.\<close>

definition orElse :: "'a option \<Rightarrow> 'a option \<Rightarrow> 'a option" where
  "orElse a b = (case a of Some x \<Rightarrow> Some x | None \<Rightarrow> b)"

text \<open>\<open>a || b\<close> on strings that may be absent: an empty string counts as absent.\<close>

definition truthyStr :: "string option \<Rightarrow> string option" where
  "truthyStr a = (case a of Some s \<Rightarrow> if s = [] then None else Some s | None \<Rightarrow> None)"

definition extMentioned :: "ExtendedTextMessage option \<Rightarrow> string list option" where
  "extMentioned e = Option.bind (Option.bind e econtextInfo) mentionedJid"

definition mediaMentioned :: "MediaMessage option \<Rightarrow> string list option" where
  "mediaMentioned e = Option.bind (Option.bind e contextInfo) mentionedJid"

text \<open>The list \<open>mentioned\<close> of \<open>isMentioningMe\<close>: the first mention list that is present.\<close>

definition mentioned :: "IMessage \<Rightarrow> string list" where
  "mentioned msg =
     (case orElse (extMentioned (extendedTextMessage msg))
            (orElse (mediaMentioned (imageMessage msg))
              (orElse (mediaMentioned (videoMessage msg))
                (mediaMentioned (documentMessage msg)))) of
        Some xs \<Rightarrow> xs
      | None \<Rightarrow> [])"

text \<open>
  \<open>jidNormalizedUser\<close> comes from the transport library; it is the parameter \<open>norm\<close>.
\<close>

definition isMentioningMe :: "(string \<Rightarrow> string) \<Rightarrow> IMessage option \<Rightarrow> string option \<Rightarrow> bool" where
  "isMentioningMe norm msg myJid =
     (case msg of
        None \<Rightarrow> False
      | Some m \<Rightarrow>
          (case truthyStr myJid of
             None \<Rightarrow> False
           | Some j \<Rightarrow> norm j \<in> set (map norm (mentioned m))))"

definition resolveFinalGroupRule ::
  "(string \<Rightarrow> string) \<Rightarrow> RuntimeConfig \<Rightarrow> string \<Rightarrow> IMessage option \<Rightarrow> string option \<Rightarrow> bool" where
  "resolveFinalGroupRule norm cfg chatJid msg myJid =
     (let override = groups (entityRules cfg) chatJid;
          overrideRule =
            (case override of
               None \<Rightarrow> None
             | Some r \<Rightarrow> if rule r \<noteq> [] \<and> rule r \<noteq> ''default'' then Some (rule r) else None);
          base = groups_default_rule (settings cfg);
          finalRule = (case overrideRule of Some r \<Rightarrow> r | None \<Rightarrow> base)
      in if finalRule = ''disabled'' then False
         else if finalRule = ''enabled'' then True
         else if finalRule = ''mentionOnly'' then isMentioningMe norm msg myJid
         else False)"

definition shouldAutomate ::
  "(string \<Rightarrow> string) \<Rightarrow> RuntimeConfig \<Rightarrow> string \<Rightarrow> bool \<Rightarrow> IMessage option \<Rightarrow> string option \<Rightarrow> bool" where
  "shouldAutomate norm cfg chatJid isGroup msg myJid =
     (if isGroup then resolveFinalGroupRule norm cfg chatJid msg myJid
      else
        (let ruleRow = contacts (entityRules cfg) chatJid;
             override =
               (case ruleRow of
                  None \<Rightarrow> ''default''
                | Some r \<Rightarrow> if rule r \<noteq> [] \<and> rule r \<noteq> ''default'' then rule r else ''default'')
         in if contacts_mode (settings cfg) = ''allowlist'' then override = ''enabled''
            else if override = ''disabled'' then False
            else True))"

text \<open>Two sample configurations, used to instantiate the theorems below.\<close>

definition cfgAllow :: RuntimeConfig where
  "cfgAllow =
     \<lparr>settings = \<lparr>ignore_from_me = True, contacts_mode = ''allowlist'',
        groups_default_rule = ''mentionOnly'', reply_send_to = ''sameChat'', reply_prefix = ''> ''\<rparr>,
      entityRules = \<lparr>contacts = [''a@s.whatsapp.net'' \<mapsto>
          \<lparr>jid = ''a@s.whatsapp.net'', etype = ''contact'', name = ''A'', rule = ''enabled''\<rparr>],
        groups = [''g@g.us'' \<mapsto>
          \<lparr>jid = ''g@g.us'', etype = ''group'', name = ''G'', rule = ''default''\<rparr>]\<rparr>\<rparr>"

definition cfgDeny :: RuntimeConfig where
  "cfgDeny =
     \<lparr>settings = \<lparr>ignore_from_me = True, contacts_mode = ''denylist'',
        groups_default_rule = ''disabled'', reply_send_to = ''directToSender'', reply_prefix = ''''\<rparr>,
      entityRules = \<lparr>contacts = [''a@s.whatsapp.net'' \<mapsto>
          \<lparr>jid = ''a@s.whatsapp.net'', etype = ''contact'', name = ''A'', rule = ''disabled''\<rparr>],
        groups = Map.empty\<rparr>\<rparr>"

text \<open>A group message whose extended text mentions \<open>me@s.whatsapp.net\<close>.\<close>

definition msgMention :: IMessage where
  "msgMention =
     \<lparr>conversation = None,
      extendedTextMessage = Some \<lparr>etext = Some '' hello there '',
        econtextInfo = Some \<lparr>mentionedJid = Some [''x@s.whatsapp.net'', ''me@s.whatsapp.net'']\<rparr>\<rparr>,
      imageMessage = None, videoMessage = None, documentMessage = None\<rparr>"

section \<open>Configuration cache\<close>

text \<open>
  A datastore query answers with a pair of \<open>data\<close> and \<open>error\<close>; the error carries a
  message. \<open>loadRuntimeConfig\<close> reads the settings row, then the flattened rules, and
  throws on the first query that fails.
\<close>

record 'a QueryResult =
  qdata :: "'a option"
  qerror :: "string option"

record Datastore =
  app_settings :: "AppSettingsRow QueryResult"
  entity_rules :: "EntityRuleRow list QueryResult"

definition setRule :: "EntityRules \<Rightarrow> EntityRuleRow \<Rightarrow> EntityRules" where
  "setRule er r =
     (if etype r = ''contact'' then er\<lparr>contacts := (contacts er)(jid r \<mapsto> r)\<rparr>
      else er\<lparr>groups := (groups er)(jid r \<mapsto> r)\<rparr>)"

definition loadRuntimeConfig :: "Datastore \<Rightarrow> string + RuntimeConfig" where
  "loadRuntimeConfig db =
     (let settingsErr = qerror (app_settings db); settingsRow = qdata (app_settings db)
      in if settingsErr \<noteq> None \<or> settingsRow = None then
           Inl (''Failed to load app_settings: '' @
                (case truthyStr settingsErr of Some m \<Rightarrow> m | None \<Rightarrow> ''missing row''))
         else
           (case qerror (entity_rules db) of
              Some m \<Rightarrow> Inl (''Failed to load entity_rules: '' @ m)
            | None \<Rightarrow>
                Inr \<lparr>settings = the settingsRow,
                     entityRules =
                       foldl setRule \<lparr>contacts = Map.empty, groups = Map.empty\<rparr>
                         (case qdata (entity_rules db) of Some rs \<Rightarrow> rs | None \<Rightarrow> [])\<rparr>))"

text \<open>
  A snapshot is an object: two snapshots built by two loads are two instances even when
  they hold the same rows. The instance is named by the serial number of the load that built
  it. The process state holds \<open>runtimeCache\<close> (its field \<open>cfg\<close> is \<open>cacheCfg\<close> here) and
  the number of loads done so far.
\<close>

record Snapshot =
  snapshotId :: nat
  config :: RuntimeConfig

record RuntimeCache =
  cacheCfg :: "Snapshot option"
  loadedAt :: int
  ttlMs :: int
  loads :: nat

definition runtimeCache :: RuntimeCache where
  "runtimeCache = \<lparr>cacheCfg = None, loadedAt = 0, ttlMs = 4000, loads = 0\<rparr>"

text \<open>
  \<open>getRuntimeConfig\<close> at the time \<open>now\<close> (the value of \<open>Date.now()\<close>), against the
  datastore as it is at that time. A load that throws leaves the cache as it was.
\<close>

definition getRuntimeConfig :: "int \<Rightarrow> Datastore \<Rightarrow> RuntimeCache \<Rightarrow> (string + Snapshot) \<times> RuntimeCache" where
  "getRuntimeConfig now db c =
     (case (if now - loadedAt c < ttlMs c then cacheCfg c else None) of
        Some s \<Rightarrow> (Inr s, c)
      | None \<Rightarrow>
          (case loadRuntimeConfig db of
             Inl e \<Rightarrow> (Inl e, c\<lparr>loads := Suc (loads c)\<rparr>)
           | Inr v \<Rightarrow>
               (let s = \<lparr>snapshotId = loads c, config = v\<rparr>
                in (Inr s, c\<lparr>cacheCfg := Some s, loadedAt := now, loads := Suc (loads c)\<rparr>))))"

text \<open>A datastore that answers both queries.\<close>

definition sampleDb :: Datastore where
  "sampleDb =
     \<lparr>app_settings = \<lparr>qdata = Some (settings cfgDeny), qerror = None\<rparr>,
      entity_rules = \<lparr>qdata = Some
          [\<lparr>jid = ''a@s.whatsapp.net'', etype = ''contact'', name = ''A'', rule = ''disabled''\<rparr>,
           \<lparr>jid = ''g@g.us'', etype = ''group'', name = ''G'', rule = ''enabled''\<rparr>],
        qerror = None\<rparr>\<rparr>"

section \<open>Effects and errors\<close>

text \<open>
  The bridge talks to four collaborators: the logger, the datastore, the webhook and the
  transport socket. A run of a piece of code is the list of the effects it has on them, in
  order, together with its result: \<open>Inl\<close> the message of the error it throws, \<open>Inr\<close> the
  value it returns. What the collaborators answer is given by the environment.
\<close>

record N8nWebhookPayload =
  pRequestId :: string
  pReceivedAt :: string
  pChatJid :: string
  pSenderJid :: "string option"
  pIsGroup :: bool
  pMessageId :: "string option"
  pMessageTimestamp :: "int option"
  pText :: "string option"

record N8nWebhookResponse =
  replyText :: "string option"
  sendTo :: "string option"
  skipReply :: "bool option"

text \<open>The column \<open>text\<close> of a log row is \<open>log_text\<close> here.\<close>

record MessageLogInsert =
  direction :: string
  chat_jid :: string
  sender_jid :: "string option"
  message_id :: "string option"
  log_text :: "string option"
  automated :: bool
  n8n_request_id :: "string option"
  n8n_status :: "nat option"
  n8n_error :: "string option"

datatype Level = Info | Warn | Err

datatype Effect =
    Log Level string
  | InsertLog MessageLogInsert
  | Fetch N8nWebhookPayload
  | SendMessage string string
  | Sleep nat
  | RequestPairingCode string
  | SetTimeoutStart nat
  | SaveCreds

type_synonym 'a io = "(string + 'a) \<times> Effect list"

definition returnIO :: "'a \<Rightarrow> 'a io" where
  "returnIO x = (Inr x, [])"

definition emit :: "Effect list \<Rightarrow> unit io" where
  "emit es = (Inr (), es)"

text \<open>Sequencing: an error of the first part skips the second.\<close>

definition bindIO :: "'a io \<Rightarrow> ('a \<Rightarrow> 'b io) \<Rightarrow> 'b io" where
  "bindIO m f =
     (case fst m of
        Inl e \<Rightarrow> (Inl e, snd m)
      | Inr a \<Rightarrow> (fst (f a), snd m @ snd (f a)))"

text \<open>\<open>try { m } catch (err) { h err }\<close>.\<close>

definition tryCatch :: "'a io \<Rightarrow> (string \<Rightarrow> 'a io) \<Rightarrow> 'a io" where
  "tryCatch m h =
     (case fst m of
        Inl e \<Rightarrow> (fst (h e), snd m @ snd (h e))
      | Inr a \<Rightarrow> m)"

text \<open>
  What \<open>fetch\<close> gives: it rejects (network failure, or the abort of the timeout), or it
  resolves to a response with a status and a body; reading the body may fail (\<open>None\<close>).
\<close>

datatype FetchOutcome = FetchFailed string | Response nat "string option"

text \<open>
  What parsing a body as JSON gives: it fails, or it gives a value that is false in a
  condition (\<open>null\<close>, \<open>0\<close>, \<open>false\<close>, the empty string), or it gives an object, read as a
  webhook response.
\<close>

datatype JsonBody = Malformed | Falsy | Obj N8nWebhookResponse

record Env =
  jidNormalizedUser :: "string \<Rightarrow> string"
  isJidNewsletter :: "string \<Rightarrow> bool"
  fetch :: "N8nWebhookPayload \<Rightarrow> FetchOutcome"
  parseJson :: "string \<Rightarrow> JsonBody"
  dbInsert :: "MessageLogInsert \<Rightarrow> string option"
  sendMessage :: "string \<Rightarrow> string \<Rightarrow> string option"
  loggedOut :: nat
  PAIRING_PHONE_NUMBER :: string

section \<open>Webhook dispatcher\<close>

text \<open>A number in a template literal: its decimal digits.\<close>

fun showNat :: "nat \<Rightarrow> string" where
  "showNat n =
     (if n < 10 then [char_of (48 + n)]
      else showNat (n div 10) @ [char_of (48 + n mod 10)])"

declare showNat.simps [simp del]

text \<open>\<open>res.ok\<close>: the status is in the range 200 to 299.\<close>

definition ok :: "nat \<Rightarrow> bool" where
  "ok status = (200 \<le> status \<and> status \<le> 299)"

definition emptyResponse :: N8nWebhookResponse where
  "emptyResponse = \<lparr>replyText = None, sendTo = None, skipReply = None\<rparr>"

definition callN8n :: "Env \<Rightarrow> N8nWebhookPayload \<Rightarrow> (N8nWebhookResponse \<times> nat) io" where
  "callN8n env payload =
     (case fetch env payload of
        FetchFailed e \<Rightarrow> (Inl e, [Fetch payload])
      | Response status body \<Rightarrow>
          if \<not> ok status then
            (Inl (take 800 (''n8n responded '' @ showNat status @ '': '' @
                    (case body of Some t \<Rightarrow> t | None \<Rightarrow> ''''))),
             [Fetch payload])
          else
            (Inr (case body of
                    None \<Rightarrow> emptyResponse
                  | Some t \<Rightarrow>
                      (case parseJson env t of
                         Malformed \<Rightarrow> emptyResponse
                       | Falsy \<Rightarrow> emptyResponse
                       | Obj r \<Rightarrow> r),
                  status),
             [Fetch payload]))"

section \<open>Audit logger\<close>

text \<open>
  The datastore client resolves an insert to an object with the field \<open>error\<close>; \<open>dbInsert\<close>
  gives the message of that error, or \<open>None\<close> when the row was stored.
\<close>

definition insertLog :: "Env \<Rightarrow> MessageLogInsert \<Rightarrow> unit io" where
  "insertLog env row =
     (case dbInsert env row of
        Some e \<Rightarrow> (Inr (), [InsertLog row, Log Warn ''Failed to insert message log''])
      | None \<Rightarrow> (Inr (), [InsertLog row]))"

section \<open>Message pipeline\<close>

text \<open>The field \<open>id\<close> of a message key is \<open>keyId\<close> here.\<close>

record WAMessageKey =
  remoteJid :: "string option"
  fromMe :: bool
  participant :: "string option"
  keyId :: "string option"

text \<open>\<open>messageTimestamp\<close> is \<open>None\<close> when the transport gives no plain number.\<close>

record WAMessage =
  key :: WAMessageKey
  message :: "IMessage option"
  messageTimestamp :: "int option"

definition extractText :: "IMessage option \<Rightarrow> string option" where
  "extractText m =
     (case m of
        None \<Rightarrow> None
      | Some msg \<Rightarrow>
          orElse (truthyStr (conversation msg))
            (orElse (truthyStr (Option.bind (extendedTextMessage msg) etext))
              (orElse (truthyStr (Option.bind (imageMessage msg) caption))
                (orElse (truthyStr (Option.bind (videoMessage msg) caption))
                  (truthyStr (Option.bind (documentMessage msg) caption))))))"

definition endsWith :: "string \<Rightarrow> string \<Rightarrow> bool" where
  "endsWith s suf = (length suf \<le> length s \<and> drop (length s - length suf) s = suf)"

text \<open>
  \<open>String.prototype.trim\<close> on strings of 8-bit code units: the white space and line
  terminators among them are the codes 9 to 13, 32 and 160.
\<close>

definition isWhiteSpace :: "char \<Rightarrow> bool" where
  "isWhiteSpace ch = ((of_char ch :: nat) \<in> {9, 10, 11, 12, 13, 32, 160})"

definition trim :: "string \<Rightarrow> string" where
  "trim s = rev (dropWhile isWhiteSpace (rev (dropWhile isWhiteSpace s)))"

text \<open>The sender of a message, and where a reply goes.\<close>

definition senderOf :: "WAMessage \<Rightarrow> string \<Rightarrow> bool \<Rightarrow> string option" where
  "senderOf m chatJid isGroup = (if isGroup then truthyStr (participant (key m)) else Some chatJid)"

definition resolvedSendTo :: "RuntimeConfig \<Rightarrow> N8nWebhookResponse \<Rightarrow> string" where
  "resolvedSendTo cfg resp =
     (case truthyStr (sendTo resp) of Some s \<Rightarrow> s | None \<Rightarrow> reply_send_to (settings cfg))"

definition destinationOf :: "string \<Rightarrow> string option \<Rightarrow> string \<Rightarrow> string" where
  "destinationOf sendTo' senderJid chatJid =
     (case (if sendTo' = ''directToSender'' then senderJid else None) of
        Some s \<Rightarrow> s
      | None \<Rightarrow> chatJid)"

definition outboundLog ::
  "string \<Rightarrow> string option \<Rightarrow> string option \<Rightarrow> string \<Rightarrow> nat option \<Rightarrow> string option \<Rightarrow> MessageLogInsert" where
  "outboundLog chat senderJid txt requestId status err =
     \<lparr>direction = ''outbound'', chat_jid = chat, sender_jid = senderJid, message_id = None,
      log_text = txt, automated = True, n8n_request_id = Some requestId, n8n_status = status,
      n8n_error = err\<rparr>"

definition sockSendMessage :: "Env \<Rightarrow> string \<Rightarrow> string \<Rightarrow> unit io" where
  "sockSendMessage env dest txt =
     (case sendMessage env dest txt of
        Some e \<Rightarrow> (Inl e, [SendMessage dest txt])
      | None \<Rightarrow> (Inr (), [SendMessage dest txt]))"

text \<open>
  The part of the loop body inside \<open>try\<close>: the call of the webhook and what follows from its
  answer.
\<close>

definition dispatch ::
  "Env \<Rightarrow> RuntimeConfig \<Rightarrow> string \<Rightarrow> string option \<Rightarrow> string \<Rightarrow> N8nWebhookPayload \<Rightarrow> unit io" where
  "dispatch env cfg chatJid senderJid requestId payload =
     bindIO (emit [Log Info ''Forwarding message to n8n'']) (\<lambda>_.
     bindIO (callN8n env payload) (\<lambda>(resp, status).
       if skipReply resp = Some True then
         insertLog env (outboundLog chatJid senderJid None requestId (Some status) (Some ''skipReply''))
       else
         (let reply = trim (case truthyStr (replyText resp) of Some t \<Rightarrow> t | None \<Rightarrow> '''')
          in if reply = [] then
               insertLog env (outboundLog chatJid senderJid None requestId (Some status) None)
             else
               (let finalText = reply_prefix (settings cfg) @ reply;
                    destination = destinationOf (resolvedSendTo cfg resp) senderJid chatJid
                in bindIO (sockSendMessage env destination finalText) (\<lambda>_.
                   bindIO (insertLog env
                     (outboundLog destination senderJid (Some finalText) requestId (Some status) None)) (\<lambda>_.
                   emit [Log Info ''Replied on WhatsApp'']))))))"

text \<open>
  The body of the loop over the messages of an upsert, for the message \<open>m\<close>. \<open>cfgRes\<close> is
  what \<open>getRuntimeConfig\<close> gave for it, \<open>userId\<close> is \<open>sock.user?.id\<close>, \<open>requestId\<close> and
  \<open>receivedAt\<close> are the fresh identifier and the time stamp drawn for it.
\<close>

definition processMessage ::
  "Env \<Rightarrow> (string + RuntimeConfig) \<Rightarrow> string option \<Rightarrow> string \<Rightarrow> string \<Rightarrow> WAMessage \<Rightarrow> unit io" where
  "processMessage env cfgRes userId requestId receivedAt m =
     (case truthyStr (remoteJid (key m)) of
        None \<Rightarrow> returnIO ()
      | Some chatJid \<Rightarrow>
          if isJidNewsletter env chatJid then returnIO ()
          else
            (case cfgRes of
               Inl e \<Rightarrow> emit [Log Err ''Failed to load runtime config'']
             | Inr cfg \<Rightarrow>
                 if ignore_from_me (settings cfg) \<and> fromMe (key m) then returnIO ()
                 else
                   (let isGroup = endsWith chatJid ''@g.us'';
                        senderJid = senderOf m chatJid isGroup;
                        txt = extractText (message m);
                        automate = shouldAutomate (jidNormalizedUser env) cfg chatJid isGroup
                                     (message m) userId
                    in bindIO
                         (case txt of
                            None \<Rightarrow> returnIO ()
                          | Some t \<Rightarrow>
                              bindIO (emit [Log Info ''Incoming message'']) (\<lambda>_.
                                insertLog env
                                  \<lparr>direction = ''inbound'', chat_jid = chatJid, sender_jid = senderJid,
                                   message_id = truthyStr (keyId (key m)), log_text = Some t,
                                   automated = automate, n8n_request_id = None, n8n_status = None,
                                   n8n_error = None\<rparr>))
                         (\<lambda>_.
                            if \<not> automate then returnIO ()
                            else
                              (case txt of
                                 None \<Rightarrow> returnIO ()
                               | Some t \<Rightarrow>
                                   tryCatch
                                     (dispatch env cfg chatJid senderJid requestId
                                        \<lparr>pRequestId = requestId, pReceivedAt = receivedAt,
                                         pChatJid = chatJid, pSenderJid = senderJid, pIsGroup = isGroup,
                                         pMessageId = truthyStr (keyId (key m)),
                                         pMessageTimestamp = messageTimestamp m, pText = Some t\<rparr>)
                                     (\<lambda>e.
                                        bindIO (insertLog env
                                          (outboundLog chatJid senderJid None requestId None
                                             (Some (take 900 e)))) (\<lambda>_.
                                        emit [Log Err ''Failed to process message''])))))))"

section \<open>Connection supervisor\<close>

text \<open>
  An update of the connection: the new state, and the status code of the error of the last
  disconnect (\<open>None\<close> when any link of the optional chain is absent).
\<close>

record ConnectionUpdate =
  connection :: "string option"
  lastDisconnectCode :: "nat option"

text \<open>
  A message as it arrives, with what the world holds at that moment: the clock, the
  datastore, the fresh request identifier and the time stamp.
\<close>

record Incoming =
  wa :: WAMessage
  arrivedAt :: int
  datastore :: Datastore
  freshId :: string
  isoTime :: string

record Upsert =
  upsertType :: string
  upsertMessages :: "Incoming list"

record Events =
  connectionUpdate :: "ConnectionUpdate option"
  credsUpdate :: bool
  messagesUpsert :: "Upsert option"

definition onConnectionUpdate :: "Env \<Rightarrow> ConnectionUpdate \<Rightarrow> unit io" where
  "onConnectionUpdate env u =
     (if connection u = Some ''close'' then
        (if lastDisconnectCode u \<noteq> Some (loggedOut env) then
           emit [Log Warn ''Connection closed; reconnecting'', SetTimeoutStart 1500]
         else emit [Log Err ''Logged out. Delete auth folder and restart to re-pair.''])
      else returnIO ())"

text \<open>The loop body asks for the configuration only after its first two checks.\<close>

definition reachesConfig :: "Env \<Rightarrow> WAMessage \<Rightarrow> bool" where
  "reachesConfig env m =
     (case truthyStr (remoteJid (key m)) of
        None \<Rightarrow> False
      | Some chatJid \<Rightarrow> \<not> isJidNewsletter env chatJid)"

fun processMessages :: "Env \<Rightarrow> string option \<Rightarrow> Incoming list \<Rightarrow> RuntimeCache \<Rightarrow> unit io \<times> RuntimeCache" where
  "processMessages env userId [] c = (returnIO (), c)"
| "processMessages env userId (i # rest) c =
     (let got = (if reachesConfig env (wa i) then getRuntimeConfig (arrivedAt i) (datastore i) c
                 else (Inl [], c));
          step = processMessage env (map_sum id config (fst got)) userId (freshId i) (isoTime i) (wa i)
      in case fst step of
           Inl e \<Rightarrow> (step, snd got)
         | Inr _ \<Rightarrow>
             (let more = processMessages env userId rest (snd got)
              in (bindIO step (\<lambda>_. fst more), snd more)))"

text \<open>
  The handler registered with \<open>sock.ev.process\<close>, for one batch of events. Saving the
  credentials is taken to succeed.
\<close>

definition onEvents :: "Env \<Rightarrow> string option \<Rightarrow> Events \<Rightarrow> RuntimeCache \<Rightarrow> unit io \<times> RuntimeCache" where
  "onEvents env userId ev c =
     (let conn = (case connectionUpdate ev of
                    Some u \<Rightarrow> onConnectionUpdate env u
                  | None \<Rightarrow> returnIO ());
          creds = (if credsUpdate ev then emit [SaveCreds] else returnIO ());
          msgs = (case messagesUpsert ev of
                    None \<Rightarrow> (returnIO (), c)
                  | Some up \<Rightarrow>
                      if upsertType up \<noteq> ''notify'' then (returnIO (), c)
                      else processMessages env userId (upsertMessages up) c)
      in (bindIO conn (\<lambda>_. bindIO creds (\<lambda>_. fst msgs)), snd msgs))"

text \<open>
  One run of \<open>start\<close>: the credentials as loaded (\<open>registered\<close>), the identity of the socket's
  user, and the batches of events the socket delivers to the handler.
\<close>

record Session =
  registered :: bool
  sessionUser :: "string option"
  sessionEvents :: "Events list"

text \<open>
  The part of \<open>start\<close> before the handler is registered. Loading the stored state, fetching
  the protocol version, opening the socket and the pairing request itself are taken to
  succeed; of these only the pairing request is an effect of interest here.
\<close>

definition startOnboarding :: "Env \<Rightarrow> bool \<Rightarrow> Effect list" where
  "startOnboarding env reg =
     (let pairingRequested = False
      in Log Info ''Using WhatsApp Web version'' #
         (if \<not> reg then
            (if PAIRING_PHONE_NUMBER env \<noteq> [] \<and> \<not> pairingRequested then
               [Sleep 1500, RequestPairingCode (PAIRING_PHONE_NUMBER env), Log Info ''Pairing code'']
             else [Log Info ''Not registered yet. Set PAIRING_PHONE_NUMBER to print a pairing code.''])
          else []))"

fun runEvents :: "Env \<Rightarrow> string option \<Rightarrow> Events list \<Rightarrow> RuntimeCache \<Rightarrow> Effect list \<times> RuntimeCache" where
  "runEvents env userId [] c = ([], c)"
| "runEvents env userId (ev # rest) c =
     (let r = onEvents env userId ev c; more = runEvents env userId rest (snd r)
      in (snd (fst r) @ fst more, snd more))"

definition start :: "Env \<Rightarrow> Session \<Rightarrow> RuntimeCache \<Rightarrow> Effect list \<times> RuntimeCache" where
  "start env s c =
     (let r = runEvents env (sessionUser s) (sessionEvents s) c
      in (startOnboarding env (registered s) @ fst r, snd r))"

definition isRestart :: "Effect \<Rightarrow> bool" where
  "isRestart e = (case e of SetTimeoutStart d \<Rightarrow> True | _ \<Rightarrow> False)"

definition isPairingRequest :: "Effect \<Rightarrow> bool" where
  "isPairingRequest e = (case e of RequestPairingCode p \<Rightarrow> True | _ \<Rightarrow> False)"

text \<open>
  The life of the process: \<open>start\<close> runs; when its handler has set the timer that calls
  \<open>start\<close> again, the next run follows, on the same module state.
\<close>

fun runProcess :: "Env \<Rightarrow> Session list \<Rightarrow> RuntimeCache \<Rightarrow> Effect list" where
  "runProcess env [] c = []"
| "runProcess env (s # rest) c =
     (let r = start env s c
      in fst r @ (if list_ex isRestart (fst r) then runProcess env rest (snd r) else []))"

section \<open>Credential store (Example/use-supabase-auth-state.ts)\<close>

text \<open>
  The column \<open>data\<close> of a key row holds a JSON value, \<open>null\<close> included. A value is false
  in a condition of the source when it is \<open>null\<close>, \<open>false\<close>, zero or the empty string.
\<close>

datatype jsval =
    JNull
  | JBool bool
  | JNum int
  | JStr string
  | JArr "jsval list"
  | JObj "(string \<times> jsval) list"

fun truthy :: "jsval \<Rightarrow> bool" where
  "truthy JNull = False"
| "truthy (JBool b) = b"
| "truthy (JNum n) = (n \<noteq> 0)"
| "truthy (JStr s) = (s \<noteq> [])"
| "truthy (JArr xs) = True"
| "truthy (JObj kvs) = True"

text \<open>The fields \<open>type\<close>, \<open>id\<close> and \<open>data\<close> of a key row are \<open>keyType\<close>, \<open>rowId\<close> and \<open>rowData\<close>.\<close>

record KeyRow =
  instance_id :: string
  keyType :: string
  rowId :: string
  rowData :: jsval

text \<open>
  The table \<open>wa_auth_keys\<close>, and the error the client reports for a query on it, if any.
\<close>

record KeyStore =
  keyRows :: "KeyRow list"
  keysError :: "string option"

text \<open>The query of \<open>keys.get\<close>: the rows of the instance and type whose id is among \<open>ids\<close>.\<close>

definition selectKeys :: "KeyStore \<Rightarrow> string \<Rightarrow> string \<Rightarrow> string list \<Rightarrow> KeyRow list QueryResult" where
  "selectKeys st inst ty ids =
     (case keysError st of
        Some e \<Rightarrow> \<lparr>qdata = None, qerror = Some e\<rparr>
      | None \<Rightarrow>
          \<lparr>qdata = Some (filter (\<lambda>r. instance_id r = inst \<and> keyType r = ty \<and> rowId r \<in> set ids)
                           (keyRows st)),
           qerror = None\<rparr>)"

text \<open>
  The body of the loop over \<open>ids\<close>. \<open>jsonDecode\<close> (the revival of buffers) and
  \<open>proto.Message.AppStateSyncKeyData.fromObject\<close> come from the transport library; they are
  the parameters \<open>dec\<close> and \<open>fromObject\<close>.
\<close>

definition keyValue :: "(jsval \<Rightarrow> jsval) \<Rightarrow> (jsval \<Rightarrow> jsval) \<Rightarrow> string \<Rightarrow> KeyRow list \<Rightarrow> string \<Rightarrow> jsval" where
  "keyValue dec fromObject ty rows i =
     (let row = find (\<lambda>r. rowId r = i) rows;
          val = (case row of
                   Some r \<Rightarrow> if truthy (rowData r) then dec (rowData r) else JNull
                 | None \<Rightarrow> JNull)
      in if ty = ''app-state-sync-key'' \<and> truthy val then fromObject val else val)"

text \<open>
  The result \<open>out\<close> of \<open>keys.get\<close> is a plain object, filled by \<open>out[id] = value\<close>. Its own
  properties are a map; besides them it has a prototype, \<open>Object.prototype\<close> at first. The
  key \<open>__proto__\<close> is not stored like the others: as long as the setter of
  \<open>Object.prototype\<close> is inherited, assigning it an object or \<open>null\<close> replaces the
  prototype of \<open>out\<close>, assigning it anything else does nothing, and no own property appears.
  Once the prototype is \<open>null\<close> every key, \<open>__proto__\<close> included, is stored as an own
  property.
\<close>

datatype Proto = ObjectPrototype | NullPrototype | ValuePrototype jsval

record KeysObject =
  own :: "string \<rightharpoonup> jsval"
  proto :: Proto

definition isObject :: "jsval \<Rightarrow> bool" where
  "isObject v = (case v of JArr xs \<Rightarrow> True | JObj kvs \<Rightarrow> True | _ \<Rightarrow> False)"

definition callProtoSetter :: "KeysObject \<Rightarrow> jsval \<Rightarrow> KeysObject" where
  "callProtoSetter out v =
     (if isObject v then out\<lparr>proto := ValuePrototype v\<rparr>
      else if v = JNull then out\<lparr>proto := NullPrototype\<rparr>
      else out)"

text \<open>
  When the prototype of \<open>out\<close> has become one of the stored values, what the assignment of a
  key that \<open>out\<close> does not own does is decided by the class of that value, which the
  transport library defines: it stores an own property, reaches the setter of \<open>__proto__\<close>,
  does nothing, or throws (the module is strict code). This is the parameter \<open>through\<close>.
\<close>

datatype SetOutcome = CreatesOwn | CallsProtoSetter | Ignored | Throws string

definition assign ::
  "(jsval \<Rightarrow> string \<Rightarrow> SetOutcome) \<Rightarrow> KeysObject \<Rightarrow> string \<Rightarrow> jsval \<Rightarrow> string + KeysObject" where
  "assign through out i v =
     (case proto out of
        NullPrototype \<Rightarrow> Inr (out\<lparr>own := (own out)(i \<mapsto> v)\<rparr>)
      | ObjectPrototype \<Rightarrow>
          if i = ''__proto__'' then Inr (callProtoSetter out v)
          else Inr (out\<lparr>own := (own out)(i \<mapsto> v)\<rparr>)
      | ValuePrototype p \<Rightarrow>
          if own out i \<noteq> None then Inr (out\<lparr>own := (own out)(i \<mapsto> v)\<rparr>)
          else
            (case through p i of
               CreatesOwn \<Rightarrow> Inr (out\<lparr>own := (own out)(i \<mapsto> v)\<rparr>)
             | CallsProtoSetter \<Rightarrow> Inr (callProtoSetter out v)
             | Ignored \<Rightarrow> Inr out
             | Throws e \<Rightarrow> Inl e))"

text \<open>The loop \<open>for (const id of ids)\<close>, with \<open>f\<close> the value computed for an id.\<close>

fun fillKeys ::
  "(jsval \<Rightarrow> string \<Rightarrow> SetOutcome) \<Rightarrow> (string \<Rightarrow> jsval) \<Rightarrow> KeysObject \<Rightarrow> string list \<Rightarrow>
   string + KeysObject" where
  "fillKeys through f out [] = Inr out"
| "fillKeys through f out (i # rest) =
     (case assign through out i (f i) of
        Inl e \<Rightarrow> Inl e
      | Inr out' \<Rightarrow> fillKeys through f out' rest)"

definition emptyObject :: KeysObject where
  "emptyObject = \<lparr>own = Map.empty, proto = ObjectPrototype\<rparr>"

definition getKeys ::
  "(jsval \<Rightarrow> string \<Rightarrow> SetOutcome) \<Rightarrow> (jsval \<Rightarrow> jsval) \<Rightarrow> (jsval \<Rightarrow> jsval) \<Rightarrow> KeyStore \<Rightarrow>
   string \<Rightarrow> string \<Rightarrow> string list \<Rightarrow> string + KeysObject" where
  "getKeys through dec fromObject st inst ty ids =
     (if ids = [] then Inr emptyObject
      else
        (let q = selectKeys st inst ty ids
         in case qerror q of
              Some e \<Rightarrow> Inl (''Failed to load wa_auth_keys: '' @ e)
            | None \<Rightarrow>
                fillKeys through
                  (keyValue dec fromObject ty (case qdata q of Some rs \<Rightarrow> rs | None \<Rightarrow> []))
                  emptyObject ids))"

section \<open>Sample inputs\<close>

definition sampleStore :: KeyStore where
  "sampleStore =
     \<lparr>keyRows =
        [\<lparr>instance_id = ''default'', keyType = ''pre-key'', rowId = ''1'',
          rowData = JObj [(''public'', JStr ''AAA''), (''private'', JStr ''BBB'')]\<rparr>,
         \<lparr>instance_id = ''default'', keyType = ''app-state-sync-key'', rowId = ''k1'',
          rowData = JObj [(''keyData'', JStr ''CCC'')]\<rparr>,
         \<lparr>instance_id = ''other'', keyType = ''pre-key'', rowId = ''2'',
          rowData = JObj [(''public'', JStr ''DDD'')]\<rparr>],
      keysError = None\<rparr>"

text \<open>A stand-in for the secondary decode, which marks the values it has handled.\<close>

definition markDecoded :: "jsval \<Rightarrow> jsval" where
  "markDecoded j = JArr [JStr ''AppStateSyncKeyData'', j]"

text \<open>
  Assignment through a prototype that is a plain object or an array: \<open>__proto__\<close> reaches
  the inherited setter, every other key becomes an own property.
\<close>

definition plainSet :: "jsval \<Rightarrow> string \<Rightarrow> SetOutcome" where
  "plainSet p i = (if i = ''__proto__'' then CallsProtoSetter else CreatesOwn)"

text \<open>A table with a row for the id 7, and a row for the id 0 whose data is the number 0.\<close>

definition oddStore :: KeyStore where
  "oddStore =
     \<lparr>keyRows =
        [\<lparr>instance_id = ''default'', keyType = ''pre-key'', rowId = ''7'',
          rowData = JObj [(''public'', JStr ''AAA''), (''private'', JStr ''BBB'')]\<rparr>,
         \<lparr>instance_id = ''default'', keyType = ''pre-key'', rowId = ''0'', rowData = JNum 0\<rparr>],
      keysError = None\<rparr>"

text \<open>
  An environment: the webhook answers 200 with a reply padded with blanks, the datastore
  refuses every log row, the socket sends without error, and the library's code for
  \<open>DisconnectReason.loggedOut\<close> is 401.
\<close>

definition sampleEnv :: Env where
  "sampleEnv =
     \<lparr>jidNormalizedUser = id,
      isJidNewsletter = (\<lambda>j. endsWith j ''@newsletter''),
      fetch = (\<lambda>p. Response 200 (Some ''{replyText:   hi }'')),
      parseJson = (\<lambda>b. if b = ''{replyText:   hi }''
                         then Obj \<lparr>replyText = Some ''  hi '', sendTo = None, skipReply = None\<rparr>
                         else Malformed),
      dbInsert = (\<lambda>row. Some ''datastore unreachable''),
      sendMessage = (\<lambda>dest txt. None),
      loggedOut = 401,
      PAIRING_PHONE_NUMBER = ''15551234567''\<rparr>"

text \<open>A text message in the group \<open>g@g.us\<close> whose key names no participant.\<close>

definition groupMessage :: WAMessage where
  "groupMessage =
     \<lparr>key = \<lparr>remoteJid = Some ''g@g.us'', fromMe = False, participant = None, keyId = Some ''M1''\<rparr>,
      message = Some msgMention,
      messageTimestamp = Some 1700000000\<rparr>"

text \<open>A configuration that automates every group and replies to the sender.\<close>

definition cfgDirect :: RuntimeConfig where
  "cfgDirect =
     \<lparr>settings = \<lparr>ignore_from_me = True, contacts_mode = ''denylist'',
        groups_default_rule = ''enabled'', reply_send_to = ''directToSender'', reply_prefix = ''> ''\<rparr>,
      entityRules = \<lparr>contacts = Map.empty, groups = Map.empty\<rparr>\<rparr>"

text \<open>A batch of events that only reports the connection closed with the given code.\<close>

definition closeEvent :: "nat option \<Rightarrow> Events" where
  "closeEvent code =
     \<lparr>connectionUpdate = Some \<lparr>connection = Some ''close'', lastDisconnectCode = code\<rparr>,
      credsUpdate = False, messagesUpsert = None\<rparr>"

definition samplePayload :: N8nWebhookPayload where
  "samplePayload =
     \<lparr>pRequestId = ''req-1'', pReceivedAt = ''2026-01-01T00:00:00.000Z'', pChatJid = ''g@g.us'',
      pSenderJid = None, pIsGroup = True, pMessageId = Some ''M1'',
      pMessageTimestamp = Some 1700000000, pText = Some ''hello''\<rparr>"

text \<open>Two runs of \<open>start\<close> on credentials that are not registered; the first ends with the
  connection closed for a reason other than a logout (code 428).\<close>

definition unpairedSessions :: "Session list" where
  "unpairedSessions =
     [\<lparr>registered = False, sessionUser = None, sessionEvents = [closeEvent (Some 428)]\<rparr>,
      \<lparr>registered = False, sessionUser = None, sessionEvents = []\<rparr>]"

section \<open>Properties of the rule engine\<close>

text \<open>
  C2. In allowlist mode a direct chat is automated exactly when its override row exists and
  carries the rule \<open>enabled\<close>; every other rule, and a chat without a row, is not automated.
\<close>

theorem allowlist_direct_iff_enabled:
  "contacts_mode (settings cfg) = ''allowlist'' \<Longrightarrow>
   shouldAutomate norm cfg chatJid False msg myJid =
     (\<exists>r. contacts (entityRules cfg) chatJid = Some r \<and> rule r = ''enabled'')"
  by (auto simp: shouldAutomate_def Let_def split: option.splits)

text \<open>An instance in allowlist mode: the contact with the rule \<open>enabled\<close> is automated.\<close>

theorem allowlist_direct_iff_enabled_witness:
  "contacts_mode (settings cfgAllow) = ''allowlist'' \<and>
   shouldAutomate id cfgAllow ''a@s.whatsapp.net'' False None None \<and>
   \<not> shouldAutomate id cfgAllow ''b@s.whatsapp.net'' False None None"
proof -
  have mode: "contacts_mode (settings cfgAllow) = ''allowlist''"
    by (simp add: cfgAllow_def)
  from allowlist_direct_iff_enabled [OF mode, of id "''a@s.whatsapp.net''" None None]
    allowlist_direct_iff_enabled [OF mode, of id "''b@s.whatsapp.net''" None None]
  show ?thesis by (simp add: cfgAllow_def)
qed

text \<open>
  C3. In denylist mode a direct chat is refused exactly when its override row exists and
  carries the rule \<open>disabled\<close>; every other rule, and a chat without a row, is automated.
\<close>

theorem denylist_direct_iff_not_disabled:
  "contacts_mode (settings cfg) = ''denylist'' \<Longrightarrow>
   shouldAutomate norm cfg chatJid False msg myJid =
     (\<not> (\<exists>r. contacts (entityRules cfg) chatJid = Some r \<and> rule r = ''disabled''))"
  by (auto simp: shouldAutomate_def Let_def split: option.splits)

text \<open>An instance in denylist mode: a contact without a row is automated.\<close>

theorem denylist_direct_iff_not_disabled_witness:
  "contacts_mode (settings cfgDeny) = ''denylist'' \<and>
   shouldAutomate id cfgDeny ''b@s.whatsapp.net'' False None None \<and>
   \<not> shouldAutomate id cfgDeny ''a@s.whatsapp.net'' False None None"
proof -
  have mode: "contacts_mode (settings cfgDeny) = ''denylist''"
    by (simp add: cfgDeny_def)
  from denylist_direct_iff_not_disabled [OF mode, of id "''b@s.whatsapp.net''" None None]
    denylist_direct_iff_not_disabled [OF mode, of id "''a@s.whatsapp.net''" None None]
  show ?thesis by (simp add: cfgDeny_def)
qed

text \<open>
  C1. For a group message the effective rule is the rule of the chat's override row when
  that row exists and its rule is present (a non-empty string) and not \<open>default\<close>, and the
  global \<open>groups_default_rule\<close> otherwise. The decision is false for \<open>disabled\<close>, whatever
  the message holds, true for \<open>enabled\<close>, and for \<open>mentionOnly\<close> it is true exactly when
  the own identifier is present and its normal form occurs among the normal forms of the
  message's mention list; every other effective rule gives false.
\<close>

theorem group_rule_resolution:
  "shouldAutomate norm cfg chatJid True msg myJid =
     (let effective =
            (case groups (entityRules cfg) chatJid of
               Some r \<Rightarrow>
                 if rule r \<noteq> [] \<and> rule r \<noteq> ''default'' then rule r
                 else groups_default_rule (settings cfg)
             | None \<Rightarrow> groups_default_rule (settings cfg))
      in if effective = ''disabled'' then False
         else if effective = ''enabled'' then True
         else if effective = ''mentionOnly'' then
           (\<exists>m j. msg = Some m \<and> myJid = Some j \<and> j \<noteq> [] \<and>
                  norm j \<in> set (map norm (mentioned m)))
         else False)"
  by (auto simp: shouldAutomate_def resolveFinalGroupRule_def isMentioningMe_def truthyStr_def
      Let_def split: option.splits if_splits)

text \<open>
  An instance: the group \<open>g@g.us\<close> has the rule \<open>default\<close>, the global rule is
  \<open>mentionOnly\<close>, and the message mentions the own identifier, so it is automated; the
  same message is refused when the own identifier is unknown.
\<close>

theorem group_rule_resolution_witness:
  "shouldAutomate id cfgAllow ''g@g.us'' True (Some msgMention) (Some ''me@s.whatsapp.net'') \<and>
   \<not> shouldAutomate id cfgAllow ''g@g.us'' True (Some msgMention) None \<and>
   \<not> shouldAutomate id cfgDeny ''g@g.us'' True (Some msgMention) (Some ''me@s.whatsapp.net'')"
proof -
  have m: "mentioned msgMention = [''x@s.whatsapp.net'', ''me@s.whatsapp.net'']"
    by (simp add: msgMention_def mentioned_def extMentioned_def orElse_def)
  from group_rule_resolution [of id cfgAllow "''g@g.us''" "Some msgMention" "Some ''me@s.whatsapp.net''"]
    group_rule_resolution [of id cfgAllow "''g@g.us''" "Some msgMention" None]
    group_rule_resolution [of id cfgDeny "''g@g.us''" "Some msgMention" "Some ''me@s.whatsapp.net''"]
  show ?thesis by (simp add: m cfgAllow_def cfgDeny_def)
qed

section \<open>Properties of the configuration cache\<close>

lemma getRuntimeConfig_hit:
  "cacheCfg c = Some s \<Longrightarrow> now - loadedAt c < ttlMs c \<Longrightarrow>
   getRuntimeConfig now db c = (Inr s, c)"
  by (simp add: getRuntimeConfig_def)

lemma getRuntimeConfig_miss:
  "cacheCfg c = None \<or> \<not> now - loadedAt c < ttlMs c \<Longrightarrow> loadRuntimeConfig db = Inr v \<Longrightarrow>
   getRuntimeConfig now db c =
     (Inr \<lparr>snapshotId = loads c, config = v\<rparr>,
      c\<lparr>cacheCfg := Some \<lparr>snapshotId = loads c, config = v\<rparr>, loadedAt := now,
        loads := Suc (loads c)\<rparr>)"
  by (auto simp: getRuntimeConfig_def Let_def)

lemma loadRuntimeConfig_sampleDb: "\<exists>v. loadRuntimeConfig sampleDb = Inr v"
  by (simp add: loadRuntimeConfig_def sampleDb_def Let_def)

text \<open>
  C6, as the code has it. The time to live runs from the load that built the cached snapshot,
  not from the previous call. A call made less than \<open>ttlMs\<close> after that load returns the
  cached instance and leaves the whole state, the count of loads included, as it was; so
  does a call made less than \<open>ttlMs\<close> after a call that loaded, whatever the datastore
  holds by then. A call on an empty cache, or \<open>ttlMs\<close> or more after the load, loads: when
  the load succeeds the new instance replaces the cached one and \<open>loadedAt\<close> becomes the
  time of the call, and when it fails the error is thrown and the cache keeps what it held.
  The time to live starts at 4000 ms and no call changes it.
\<close>

theorem cache_serves_within_ttl_of_load:
  "(cacheCfg c = Some s \<and> now - loadedAt c < ttlMs c \<longrightarrow>
      getRuntimeConfig now db c = (Inr s, c)) \<and>
   ((cacheCfg c = None \<or> \<not> now - loadedAt c < ttlMs c) \<and> loadRuntimeConfig db = Inr v \<longrightarrow>
      getRuntimeConfig now db c =
        (Inr \<lparr>snapshotId = loads c, config = v\<rparr>,
         c\<lparr>cacheCfg := Some \<lparr>snapshotId = loads c, config = v\<rparr>, loadedAt := now,
           loads := Suc (loads c)\<rparr>)) \<and>
   ((cacheCfg c = None \<or> \<not> now - loadedAt c < ttlMs c) \<and> loadRuntimeConfig db = Inl e \<longrightarrow>
      getRuntimeConfig now db c = (Inl e, c\<lparr>loads := Suc (loads c)\<rparr>)) \<and>
   ((cacheCfg c = None \<or> \<not> now - loadedAt c < ttlMs c) \<and> loadRuntimeConfig db = Inr v \<and>
    later - now < ttlMs c \<longrightarrow>
      getRuntimeConfig later db' (snd (getRuntimeConfig now db c)) =
        (fst (getRuntimeConfig now db c), snd (getRuntimeConfig now db c))) \<and>
   ttlMs (snd (getRuntimeConfig now db c)) = ttlMs c \<and> ttlMs runtimeCache = 4000"
proof (intro conjI impI)
  assume "cacheCfg c = Some s \<and> now - loadedAt c < ttlMs c"
  then show "getRuntimeConfig now db c = (Inr s, c)"
    by (simp add: getRuntimeConfig_hit)
next
  assume "(cacheCfg c = None \<or> \<not> now - loadedAt c < ttlMs c) \<and> loadRuntimeConfig db = Inr v"
  then show "getRuntimeConfig now db c =
        (Inr \<lparr>snapshotId = loads c, config = v\<rparr>,
         c\<lparr>cacheCfg := Some \<lparr>snapshotId = loads c, config = v\<rparr>, loadedAt := now,
           loads := Suc (loads c)\<rparr>)"
    by (simp add: getRuntimeConfig_miss)
next
  assume "(cacheCfg c = None \<or> \<not> now - loadedAt c < ttlMs c) \<and> loadRuntimeConfig db = Inl e"
  then show "getRuntimeConfig now db c = (Inl e, c\<lparr>loads := Suc (loads c)\<rparr>)"
    by (auto simp: getRuntimeConfig_def)
next
  assume a: "(cacheCfg c = None \<or> \<not> now - loadedAt c < ttlMs c) \<and> loadRuntimeConfig db = Inr v \<and>
    later - now < ttlMs c"
  let ?s = "\<lparr>snapshotId = loads c, config = v\<rparr>"
  let ?c' = "c\<lparr>cacheCfg := Some ?s, loadedAt := now, loads := Suc (loads c)\<rparr>"
  from a have first: "getRuntimeConfig now db c = (Inr ?s, ?c')"
    by (simp add: getRuntimeConfig_miss)
  from a have "getRuntimeConfig later db' ?c' = (Inr ?s, ?c')"
    by (intro getRuntimeConfig_hit) simp_all
  with first show "getRuntimeConfig later db' (snd (getRuntimeConfig now db c)) =
        (fst (getRuntimeConfig now db c), snd (getRuntimeConfig now db c))"
    by simp
next
  show "ttlMs (snd (getRuntimeConfig now db c)) = ttlMs c"
    by (simp add: getRuntimeConfig_def Let_def split: option.splits sum.splits)
next
  show "ttlMs runtimeCache = 4000"
    by (simp add: runtimeCache_def)
qed

text \<open>
  An instance: the first call of the process loads; a call 3999 ms later is served from the
  cache without a load, even from a datastore that has stopped answering.
\<close>

theorem cache_serves_within_ttl_of_load_witness:
  "fst (getRuntimeConfig 1700000003999 (sampleDb\<lparr>app_settings := \<lparr>qdata = None, qerror = Some ''down''\<rparr>\<rparr>)
      (snd (getRuntimeConfig 1700000000000 sampleDb runtimeCache))) =
     fst (getRuntimeConfig 1700000000000 sampleDb runtimeCache) \<and>
   loads (snd (getRuntimeConfig 1700000003999 (sampleDb\<lparr>app_settings := \<lparr>qdata = None, qerror = Some ''down''\<rparr>\<rparr>)
      (snd (getRuntimeConfig 1700000000000 sampleDb runtimeCache)))) = 1"
proof -
  obtain v where v: "loadRuntimeConfig sampleDb = Inr v"
    using loadRuntimeConfig_sampleDb by blast
  have pre: "(cacheCfg runtimeCache = None \<or> \<not> 1700000000000 - loadedAt runtimeCache < ttlMs runtimeCache) \<and>
      loadRuntimeConfig sampleDb = Inr v \<and> 1700000003999 - 1700000000000 < ttlMs runtimeCache"
    by (simp add: v runtimeCache_def)
  have first: "loads (snd (getRuntimeConfig 1700000000000 sampleDb runtimeCache)) = 1"
    by (simp add: getRuntimeConfig_def v runtimeCache_def Let_def)
  from cache_serves_within_ttl_of_load [of runtimeCache "\<lparr>snapshotId = 0, config = v\<rparr>"
      1700000000000 sampleDb v "''down''" 1700000003999
      "sampleDb\<lparr>app_settings := \<lparr>qdata = None, qerror = Some ''down''\<rparr>\<rparr>"] pre
  have second: "getRuntimeConfig 1700000003999
      (sampleDb\<lparr>app_settings := \<lparr>qdata = None, qerror = Some ''down''\<rparr>\<rparr>)
      (snd (getRuntimeConfig 1700000000000 sampleDb runtimeCache)) =
      (fst (getRuntimeConfig 1700000000000 sampleDb runtimeCache),
       snd (getRuntimeConfig 1700000000000 sampleDb runtimeCache))"
    by blast
  show ?thesis
    by (simp only: second fst_conv snd_conv first simp_thms)
qed

text \<open>
  The claim as worded, with the time to live counted from the previous call, fails: the
  snapshot is loaded at time 1700000000000, a call 3000 ms later is served from the cache, and
  a call 2000 ms after that one (5000 ms after the load) loads again and returns another
  instance.
\<close>

theorem cache_ttl_not_from_previous_call:
  "1700000005000 - 1700000003000 < ttlMs (snd (getRuntimeConfig 1700000000000 sampleDb runtimeCache)) \<and>
   snd (getRuntimeConfig 1700000003000 sampleDb (snd (getRuntimeConfig 1700000000000 sampleDb runtimeCache))) =
     snd (getRuntimeConfig 1700000000000 sampleDb runtimeCache) \<and>
   map_sum id snapshotId
     (fst (getRuntimeConfig 1700000003000 sampleDb (snd (getRuntimeConfig 1700000000000 sampleDb runtimeCache)))) =
     Inr 0 \<and>
   map_sum id snapshotId
     (fst (getRuntimeConfig 1700000005000 sampleDb (snd (getRuntimeConfig 1700000000000 sampleDb runtimeCache)))) =
     Inr 1 \<and>
   loads (snd (getRuntimeConfig 1700000005000 sampleDb (snd (getRuntimeConfig 1700000000000 sampleDb runtimeCache)))) =
     Suc (loads (snd (getRuntimeConfig 1700000000000 sampleDb runtimeCache)))"
proof -
  obtain v where v: "loadRuntimeConfig sampleDb = Inr v"
    using loadRuntimeConfig_sampleDb by blast
  show ?thesis
    by (simp add: getRuntimeConfig_def v runtimeCache_def Let_def)
qed

section \<open>Properties of the credential store\<close>

lemma find_filter_conj:
  "find P (filter Q xs) = find (\<lambda>x. Q x \<and> P x) xs"
  by (induction xs) auto

lemma keyValue_selected:
  assumes "i \<in> set ids"
  shows "keyValue dec fo ty
           (filter (\<lambda>r. instance_id r = inst \<and> keyType r = ty \<and> rowId r \<in> set ids) rows) i =
         (case find (\<lambda>r. instance_id r = inst \<and> keyType r = ty \<and> rowId r = i) rows of
            None \<Rightarrow> JNull
          | Some r \<Rightarrow>
              if truthy (rowData r) then
                (if ty = ''app-state-sync-key'' \<and> truthy (dec (rowData r)) then fo (dec (rowData r))
                 else dec (rowData r))
              else JNull)"
proof -
  have eq: "find (\<lambda>r. rowId r = i)
              (filter (\<lambda>r. instance_id r = inst \<and> keyType r = ty \<and> rowId r \<in> set ids) rows) =
            find (\<lambda>r. instance_id r = inst \<and> keyType r = ty \<and> rowId r = i) rows"
    unfolding find_filter_conj using assms by (intro find_cong) auto
  show ?thesis
    unfolding keyValue_def Let_def eq
    by (cases "find (\<lambda>r. instance_id r = inst \<and> keyType r = ty \<and> rowId r = i) rows") auto
qed

lemma assign_ordinary_key:
  "proto out = ObjectPrototype \<Longrightarrow> i \<noteq> ''__proto__'' \<Longrightarrow>
   assign through out i v = Inr (out\<lparr>own := (own out)(i \<mapsto> v)\<rparr>)"
  by (simp add: assign_def)

lemma fillKeys_ordinary_keys:
  "proto out = ObjectPrototype \<Longrightarrow> ''__proto__'' \<notin> set ids \<Longrightarrow>
   fillKeys through f out ids =
     Inr (out\<lparr>own := (\<lambda>i. if i \<in> set ids then Some (f i) else own out i)\<rparr>)"
proof (induction ids arbitrary: out)
  case Nil
  then show ?case by simp
next
  case (Cons a ids)
  let ?out = "out\<lparr>own := (own out)(a \<mapsto> f a)\<rparr>"
  from Cons.prems have step: "assign through out a (f a) = Inr ?out"
    by (intro assign_ordinary_key) auto
  from Cons.prems have "fillKeys through f ?out ids =
      Inr (?out\<lparr>own := (\<lambda>i. if i \<in> set ids then Some (f i) else own ?out i)\<rparr>)"
    by (intro Cons.IH) simp_all
  moreover have "(\<lambda>i. if i \<in> set ids then Some (f i) else own ?out i) =
      (\<lambda>i. if i \<in> set (a # ids) then Some (f i) else own out i)"
    by auto
  ultimately show ?case using step by simp
qed

text \<open>
  C9, as the code has it. When the lookup succeeds and \<open>__proto__\<close> is not among the
  requested ids, \<open>keys.get\<close> returns an object whose own keys are exactly the requested ids
  and whose prototype is untouched. An id maps to the decoded data of its row when the table
  has a row of the instance and type with that id whose data is true in a condition of the
  source (neither \<open>null\<close> nor \<open>false\<close>, zero or the empty string); every other requested id
  maps to \<open>null\<close>. The secondary decode is applied to the decoded value for the type
  \<open>app-state-sync-key\<close>, and for no other type.
\<close>

theorem getKeys_maps_every_requested_id:
  assumes "keysError st = None" and "''__proto__'' \<notin> set ids"
  shows "\<exists>out. getKeys through dec fo st inst ty ids = Inr out \<and> proto out = ObjectPrototype \<and>
           dom (own out) = set ids \<and>
           (\<forall>i \<in> set ids. own out i = Some
              (case find (\<lambda>r. instance_id r = inst \<and> keyType r = ty \<and> rowId r = i) (keyRows st) of
                 None \<Rightarrow> JNull
               | Some r \<Rightarrow>
                   if truthy (rowData r) then
                     (if ty = ''app-state-sync-key'' \<and> truthy (dec (rowData r))
                      then fo (dec (rowData r)) else dec (rowData r))
                   else JNull))"
proof (cases "ids = []")
  case True
  then show ?thesis by (simp add: getKeys_def emptyObject_def)
next
  case False
  let ?rows = "filter (\<lambda>r. instance_id r = inst \<and> keyType r = ty \<and> rowId r \<in> set ids) (keyRows st)"
  let ?f = "keyValue dec fo ty ?rows"
  let ?out = "emptyObject\<lparr>own := (\<lambda>i. if i \<in> set ids then Some (?f i) else own emptyObject i)\<rparr>"
  from False assms(1) have "getKeys through dec fo st inst ty ids = fillKeys through ?f emptyObject ids"
    by (simp add: getKeys_def selectKeys_def Let_def)
  also from assms(2) have "\<dots> = Inr ?out"
    by (intro fillKeys_ordinary_keys) (simp_all add: emptyObject_def)
  finally have res: "getKeys through dec fo st inst ty ids = Inr ?out" .
  have "proto ?out = ObjectPrototype"
    by (simp add: emptyObject_def)
  moreover have "dom (own ?out) = set ids"
    by (auto simp: emptyObject_def split: if_splits)
  moreover have "\<forall>i \<in> set ids. own ?out i = Some (?f i)"
    by simp
  ultimately show ?thesis using res
    by (simp add: keyValue_selected)
qed

text \<open>
  An instance: of the ids 1 and 2 of the type \<open>pre-key\<close> only the first has a row in the
  instance; the second maps to \<open>null\<close>, and the value of the first is not decoded again.
  The value of the id k1 of the type \<open>app-state-sync-key\<close> is decoded a second time.
\<close>

theorem getKeys_maps_every_requested_id_witness:
  "keysError sampleStore = None \<and> ''__proto__'' \<notin> set [''1'', ''2''] \<and>
   (\<exists>out. getKeys plainSet id markDecoded sampleStore ''default'' ''pre-key'' [''1'', ''2''] = Inr out \<and>
      dom (own out) = {''1'', ''2''} \<and>
      own out ''1'' = Some (JObj [(''public'', JStr ''AAA''), (''private'', JStr ''BBB'')]) \<and>
      own out ''2'' = Some JNull) \<and>
   (\<exists>out. getKeys plainSet id markDecoded sampleStore ''default'' ''app-state-sync-key'' [''k1''] = Inr out \<and>
      own out ''k1'' = Some (markDecoded (JObj [(''keyData'', JStr ''CCC'')])))"
proof -
  have h: "keysError sampleStore = None"
    by (simp add: sampleStore_def)
  have n: "''__proto__'' \<notin> set [''1'', ''2'']" and n': "''__proto__'' \<notin> set [''k1'']"
    by simp_all
  from getKeys_maps_every_requested_id [OF h n', of plainSet id markDecoded "''default''" "''app-state-sync-key''"]
  obtain out' where o': "getKeys plainSet id markDecoded sampleStore ''default'' ''app-state-sync-key'' [''k1''] = Inr out'"
    and v': "\<forall>i \<in> set [''k1'']. own out' i = Some
              (case find (\<lambda>r. instance_id r = ''default'' \<and> keyType r = ''app-state-sync-key'' \<and> rowId r = i)
                      (keyRows sampleStore) of
                 None \<Rightarrow> JNull
               | Some r \<Rightarrow>
                   if truthy (rowData r) then
                     (if ''app-state-sync-key'' = ''app-state-sync-key'' \<and> truthy (id (rowData r))
                      then markDecoded (id (rowData r)) else id (rowData r))
                   else JNull)"
    by blast
  from v' have "own out' ''k1'' = Some (markDecoded (JObj [(''keyData'', JStr ''CCC'')]))"
    by (simp add: sampleStore_def)
  with o' have second: "\<exists>out. getKeys plainSet id markDecoded sampleStore ''default'' ''app-state-sync-key'' [''k1''] = Inr out \<and>
      own out ''k1'' = Some (markDecoded (JObj [(''keyData'', JStr ''CCC'')]))"
    by blast
  from getKeys_maps_every_requested_id [OF h n, of plainSet id markDecoded "''default''" "''pre-key''"]
  obtain out where o: "getKeys plainSet id markDecoded sampleStore ''default'' ''pre-key'' [''1'', ''2''] = Inr out"
    and d: "dom (own out) = set [''1'', ''2'']"
    and v: "\<forall>i \<in> set [''1'', ''2'']. own out i = Some
              (case find (\<lambda>r. instance_id r = ''default'' \<and> keyType r = ''pre-key'' \<and> rowId r = i)
                      (keyRows sampleStore) of
                 None \<Rightarrow> JNull
               | Some r \<Rightarrow>
                   if truthy (rowData r) then
                     (if ''pre-key'' = ''app-state-sync-key'' \<and> truthy (id (rowData r))
                      then markDecoded (id (rowData r)) else id (rowData r))
                   else JNull)"
    by blast
  from v have "own out ''1'' = Some (JObj [(''public'', JStr ''AAA''), (''private'', JStr ''BBB'')])"
    by (simp add: sampleStore_def)
  moreover from v have "own out ''2'' = Some JNull"
    by (simp add: sampleStore_def)
  moreover from d have "dom (own out) = {''1'', ''2''}"
    by simp
  ultimately show ?thesis using h n o second by blast
qed

text \<open>
  The claim as worded fails on two inputs. For the ids \<open>__proto__\<close> and 7 the object
  returned owns the key 7 only: the assignment of \<open>__proto__\<close> has replaced its prototype.
  And the id 0, whose row stores the number 0, maps to \<open>null\<close> although a value is stored.
\<close>

theorem getKeys_proto_key_and_falsy_data:
  "\<not> isl (getKeys plainSet id markDecoded oddStore ''default'' ''pre-key'' [''__proto__'', ''7'']) \<and>
   dom (own (projr (getKeys plainSet id markDecoded oddStore ''default'' ''pre-key'' [''__proto__'', ''7'']))) =
     {''7''} \<and>
   proto (projr (getKeys plainSet id markDecoded oddStore ''default'' ''pre-key'' [''__proto__'', ''7''])) =
     NullPrototype \<and>
   instance_id (keyRows oddStore ! 1) = ''default'' \<and> keyType (keyRows oddStore ! 1) = ''pre-key'' \<and>
   rowId (keyRows oddStore ! 1) = ''0'' \<and> rowData (keyRows oddStore ! 1) = JNum 0 \<and>
   \<not> isl (getKeys plainSet id markDecoded oddStore ''default'' ''pre-key'' [''0'']) \<and>
   own (projr (getKeys plainSet id markDecoded oddStore ''default'' ''pre-key'' [''0''])) ''0'' = Some JNull"
  by (simp add: getKeys_def selectKeys_def oddStore_def keyValue_def assign_def callProtoSetter_def
      isObject_def emptyObject_def Let_def)

section \<open>Properties of the dispatcher, the logger and the supervisor\<close>

lemma fst_returnIO [simp]: "fst (returnIO x) = Inr x"
  by (simp add: returnIO_def)

lemma snd_returnIO [simp]: "snd (returnIO x) = []"
  by (simp add: returnIO_def)

lemma fst_emit [simp]: "fst (emit es) = Inr ()"
  by (simp add: emit_def)

lemma snd_emit [simp]: "snd (emit es) = es"
  by (simp add: emit_def)

lemma fst_bindIO: "fst (bindIO m f) = (case fst m of Inl e \<Rightarrow> Inl e | Inr a \<Rightarrow> fst (f a))"
  by (simp add: bindIO_def split: sum.splits)

lemma snd_bindIO: "snd (bindIO m f) = (case fst m of Inl e \<Rightarrow> snd m | Inr a \<Rightarrow> snd m @ snd (f a))"
  by (simp add: bindIO_def split: sum.splits)

lemma fst_tryCatch: "fst (tryCatch m h) = (case fst m of Inl e \<Rightarrow> fst (h e) | Inr a \<Rightarrow> Inr a)"
  by (cases m) (simp add: tryCatch_def split: sum.splits)

lemma snd_tryCatch: "snd (tryCatch m h) = (case fst m of Inl e \<Rightarrow> snd m @ snd (h e) | Inr a \<Rightarrow> snd m)"
  by (simp add: tryCatch_def split: sum.splits)

lemma fst_insertLog [simp]: "fst (insertLog env row) = Inr ()"
  by (simp add: insertLog_def split: option.splits)

lemma snd_insertLog:
  "snd (insertLog env row) =
     InsertLog row # (case dbInsert env row of None \<Rightarrow> [] | Some e \<Rightarrow> [Log Warn ''Failed to insert message log''])"
  by (simp add: insertLog_def split: option.splits)

lemma snd_callN8n [simp]: "snd (callN8n env payload) = [Fetch payload]"
  by (simp add: callN8n_def split: FetchOutcome.splits)

lemma processMessage_returns: "fst (processMessage env cfgRes userId requestId receivedAt m) = Inr ()"
  by (simp add: processMessage_def fst_bindIO fst_tryCatch Let_def split: option.splits sum.splits)

lemma length_showNat: "n < 1000 \<Longrightarrow> length (showNat n) \<le> 3"
proof -
  assume n: "n < 1000"
  have one: "\<And>k. k < 10 \<Longrightarrow> length (showNat k) = 1"
    by (subst showNat.simps) simp
  have two: "\<And>k. k < 100 \<Longrightarrow> length (showNat k) \<le> 2"
  proof -
    fix k :: nat assume "k < 100"
    then have "k div 10 < 10" by simp
    then show "length (showNat k) \<le> 2"
      by (subst showNat.simps) (simp add: one)
  qed
  from n have "n div 10 < 100" by simp
  then have "length (showNat (n div 10)) \<le> 2" by (rule two)
  then show ?thesis
    by (subst showNat.simps) (simp add: one)
qed

lemma take_prefix: "length xs \<le> n \<Longrightarrow> take n (xs @ ys) = xs @ take (n - length xs) ys"
  by simp

text \<open>
  C7. When the webhook answers with a status in the 2xx range and a body that cannot be read
  or is not well-formed JSON, \<open>callN8n\<close> returns the empty response (no \<open>replyText\<close>, no
  \<open>sendTo\<close>, no \<open>skipReply\<close>) with that status, and throws nothing. With any other status it
  throws an error whose message is the first 800 characters of \<open>n8n responded\<close>, the status, a
  colon and the body; for a status of at most three digits this is the whole heading with
  the status, followed by the first 784 characters of the body, less one for each digit.
\<close>

theorem callN8n_lenient_body_strict_status:
  assumes "fetch env payload = Response status body"
  shows "(ok status \<and> (body = None \<or> (\<exists>t. body = Some t \<and> parseJson env t = Malformed)) \<longrightarrow>
            fst (callN8n env payload) = Inr (emptyResponse, status)) \<and>
         (\<not> ok status \<longrightarrow>
            fst (callN8n env payload) =
              Inl (take 800 (''n8n responded '' @ showNat status @ '': '' @
                    (case body of Some t \<Rightarrow> t | None \<Rightarrow> [])))) \<and>
         (\<not> ok status \<and> status < 1000 \<longrightarrow>
            fst (callN8n env payload) =
              Inl (''n8n responded '' @ showNat status @ '': '' @
                   take (784 - length (showNat status)) (case body of Some t \<Rightarrow> t | None \<Rightarrow> [])))"
proof (intro conjI impI)
  assume "ok status \<and> (body = None \<or> (\<exists>t. body = Some t \<and> parseJson env t = Malformed))"
  with assms show "fst (callN8n env payload) = Inr (emptyResponse, status)"
    by (auto simp: callN8n_def)
next
  assume "\<not> ok status"
  with assms show "fst (callN8n env payload) =
      Inl (take 800 (''n8n responded '' @ showNat status @ '': '' @
            (case body of Some t \<Rightarrow> t | None \<Rightarrow> [])))"
    by (simp add: callN8n_def)
next
  assume a: "\<not> ok status \<and> status < 1000"
  let ?b = "case body of Some t \<Rightarrow> t | None \<Rightarrow> []"
  let ?h = "''n8n responded '' @ showNat status @ '': ''"
  from a have len: "length ?h \<le> 800"
    using length_showNat [of status] by simp
  have "take 800 (?h @ ?b) = ?h @ take (800 - length ?h) ?b"
    using len by (rule take_prefix)
  moreover have "800 - length ?h = 784 - length (showNat status)"
    by simp
  ultimately have "take 800 (?h @ ?b) = ?h @ take (784 - length (showNat status)) ?b"
    by (simp only:)
  with a assms show "fst (callN8n env payload) =
      Inl (''n8n responded '' @ showNat status @ '': '' @
           take (784 - length (showNat status)) (case body of Some t \<Rightarrow> t | None \<Rightarrow> []))"
    by (simp add: callN8n_def)
qed

text \<open>An instance of either case: a 200 with an HTML body, and a 503.\<close>

theorem callN8n_lenient_body_strict_status_witness:
  "fst (callN8n (sampleEnv\<lparr>fetch := (\<lambda>p. Response 200 (Some ''<html>''))\<rparr>) samplePayload) =
     Inr (emptyResponse, 200) \<and>
   fst (callN8n (sampleEnv\<lparr>fetch := (\<lambda>p. Response 503 (Some ''Service Unavailable''))\<rparr>) samplePayload) =
     Inl ''n8n responded 503: Service Unavailable''"
proof -
  let ?e1 = "sampleEnv\<lparr>fetch := (\<lambda>p. Response 200 (Some ''<html>''))\<rparr>"
  let ?e2 = "sampleEnv\<lparr>fetch := (\<lambda>p. Response 503 (Some ''Service Unavailable''))\<rparr>"
  have f1: "fetch ?e1 samplePayload = Response 200 (Some ''<html>'')" by simp
  have f2: "fetch ?e2 samplePayload = Response 503 (Some ''Service Unavailable'')" by simp
  have p1: "ok 200 \<and> (Some ''<html>'' = None \<or> (\<exists>t. Some ''<html>'' = Some t \<and> parseJson ?e1 t = Malformed))"
    by (simp add: ok_def sampleEnv_def)
  have p2: "\<not> ok 503 \<and> (503::nat) < 1000"
    by (simp add: ok_def)
  have s: "showNat 503 = ''503''"
    by code_simp
  from callN8n_lenient_body_strict_status [OF f1] p1
  have "fst (callN8n ?e1 samplePayload) = Inr (emptyResponse, 200)"
    by blast
  moreover from callN8n_lenient_body_strict_status [OF f2] p2
  have "fst (callN8n ?e2 samplePayload) = Inl (''n8n responded '' @ showNat 503 @ '': '' @
          take (784 - length (showNat 503)) (case Some ''Service Unavailable'' of Some t \<Rightarrow> t | None \<Rightarrow> []))"
    by blast
  ultimately show ?thesis by (simp add: s)
qed

text \<open>
  C8. Whatever row it is given and whatever the datastore answers to the insert,
  \<open>insertLog\<close> returns normally: it passes the row to the datastore and, when the insert
  fails, logs one warning and drops the failure. The loop body that calls it returns
  normally as well, for every message and every environment.
\<close>

theorem insertLog_never_raises:
  "fst (insertLog env row) = Inr () \<and>
   snd (insertLog env row) =
     InsertLog row #
       (case dbInsert env row of
          None \<Rightarrow> []
        | Some e \<Rightarrow> [Log Warn ''Failed to insert message log'']) \<and>
   fst (processMessage env cfgRes userId requestId receivedAt m) = Inr ()"
  by (simp add: snd_insertLog processMessage_returns)

text \<open>An instance with a datastore that refuses every row.\<close>

theorem insertLog_never_raises_witness:
  "dbInsert sampleEnv (outboundLog ''g@g.us'' None None ''req-1'' (Some 200) None) \<noteq> None \<and>
   insertLog sampleEnv (outboundLog ''g@g.us'' None None ''req-1'' (Some 200) None) =
     (Inr (), [InsertLog (outboundLog ''g@g.us'' None None ''req-1'' (Some 200) None),
               Log Warn ''Failed to insert message log'']) \<and>
   fst (processMessage sampleEnv (Inr cfgDirect) None ''req-1'' ''2026-01-01T00:00:00.000Z'' groupMessage) = Inr ()"
proof -
  have d: "dbInsert sampleEnv (outboundLog ''g@g.us'' None None ''req-1'' (Some 200) None) =
      Some ''datastore unreachable''"
    by (simp add: sampleEnv_def)
  from insertLog_never_raises [of sampleEnv "outboundLog ''g@g.us'' None None ''req-1'' (Some 200) None"
      "Inr cfgDirect" None "''req-1''" "''2026-01-01T00:00:00.000Z''" groupMessage] d
  show ?thesis by (simp add: prod_eq_iff)
qed

lemma noRestart_insertLog: "filter isRestart (snd (insertLog env row)) = []"
  by (simp add: snd_insertLog isRestart_def split: option.splits)

lemma noRestart_dispatch:
  "filter isRestart (snd (dispatch env cfg chat sender rid payload)) = []"
  by (simp add: dispatch_def snd_bindIO fst_bindIO sockSendMessage_def Let_def noRestart_insertLog
      isRestart_def split: sum.splits option.splits prod.splits)

lemma noRestart_processMessage:
  "filter isRestart (snd (processMessage env cfgRes userId requestId receivedAt m)) = []"
  by (simp add: processMessage_def snd_bindIO fst_bindIO snd_tryCatch Let_def noRestart_insertLog
      noRestart_dispatch isRestart_def split: sum.splits option.splits)

lemma noRestart_processMessages:
  "filter isRestart (snd (fst (processMessages env userId ms c))) = []"
proof (induction ms arbitrary: c)
  case Nil
  then show ?case by simp
next
  case (Cons i rest)
  then show ?case
    by (simp add: Let_def snd_bindIO noRestart_processMessage split: sum.splits)
qed

text \<open>
  C4. When the handler receives an update that reports the connection closed, the timers it
  sets for a new \<open>start\<close> are: none when the code of the last disconnect is the library's
  \<open>loggedOut\<close>, and exactly one, with a delay of 1500 ms, for any other code and when there
  is no code at all. Nothing else in the handler sets such a timer.
\<close>

theorem close_schedules_one_restart_unless_logged_out:
  assumes "connectionUpdate ev = Some u" and "connection u = Some ''close''"
  shows "filter isRestart (snd (fst (onEvents env userId ev c))) =
           (if lastDisconnectCode u = Some (loggedOut env) then [] else [SetTimeoutStart 1500])"
  using assms
  by (simp add: onEvents_def onConnectionUpdate_def Let_def snd_bindIO fst_bindIO
      noRestart_processMessages isRestart_def split: option.splits)

text \<open>Instances: a logout (401), a closed connection (428), and a close without a code.\<close>

theorem close_schedules_one_restart_unless_logged_out_witness:
  "filter isRestart (snd (fst (onEvents sampleEnv None (closeEvent (Some 401)) runtimeCache))) = [] \<and>
   filter isRestart (snd (fst (onEvents sampleEnv None (closeEvent (Some 428)) runtimeCache))) =
     [SetTimeoutStart 1500] \<and>
   filter isRestart (snd (fst (onEvents sampleEnv None (closeEvent None) runtimeCache))) =
     [SetTimeoutStart 1500]"
proof -
  have a: "\<And>code. connectionUpdate (closeEvent code) =
      Some \<lparr>connection = Some ''close'', lastDisconnectCode = code\<rparr>"
    by (simp add: closeEvent_def)
  have b: "\<And>code. connection \<lparr>connection = Some ''close'', lastDisconnectCode = code\<rparr> = Some ''close''"
    by simp
  from close_schedules_one_restart_unless_logged_out [OF a [of "Some 401"] b [of "Some 401"],
      where env = sampleEnv and userId = None and c = runtimeCache]
    close_schedules_one_restart_unless_logged_out [OF a [of "Some 428"] b [of "Some 428"],
      where env = sampleEnv and userId = None and c = runtimeCache]
    close_schedules_one_restart_unless_logged_out [OF a [of None] b [of None],
      where env = sampleEnv and userId = None and c = runtimeCache]
  show ?thesis by (simp add: sampleEnv_def)
qed

text \<open>
  C5. The flag \<open>pairingRequested\<close> is a local variable of \<open>start\<close>, set to false at each
  run, so it never holds the supervisor back: with a pairing number configured and
  credentials that are still not registered after a restart, the process requests a pairing
  code once per run of \<open>start\<close>, here twice.
\<close>

theorem pairing_code_requested_again_after_restart:
  "filter isPairingRequest (runProcess sampleEnv unpairedSessions runtimeCache) =
     [RequestPairingCode ''15551234567'', RequestPairingCode ''15551234567'']"
  by (simp add: unpairedSessions_def start_def startOnboarding_def onEvents_def onConnectionUpdate_def
      closeEvent_def sampleEnv_def isPairingRequest_def isRestart_def bindIO_def emit_def returnIO_def
      Let_def)

lemma send_in_dispatch:
  assumes "SendMessage d t \<in> set (snd (dispatch env cfg chat sender rid payload))"
  shows "\<exists>resp status. fst (callN8n env payload) = Inr (resp, status) \<and>
           t = reply_prefix (settings cfg) @
                 trim (case truthyStr (replyText resp) of Some x \<Rightarrow> x | None \<Rightarrow> []) \<and>
           d = destinationOf (resolvedSendTo cfg resp) sender chat"
proof (cases "fst (callN8n env payload)")
  case (Inl e)
  with assms show ?thesis
    by (simp add: dispatch_def snd_bindIO fst_bindIO)
next
  case (Inr r)
  obtain resp status where r: "r = (resp, status)" by (cases r)
  with Inr assms show ?thesis
    by (auto simp: dispatch_def snd_bindIO fst_bindIO sockSendMessage_def snd_insertLog Let_def
        split: if_splits option.splits sum.splits)
qed

lemma senderOf_absent:
  "senderOf m chat isGroup = None \<longleftrightarrow> isGroup \<and> truthyStr (participant (key m)) = None"
  by (simp add: senderOf_def)

lemma destinationOf_no_sender: "destinationOf s None chat = chat"
  by (simp add: destinationOf_def)

text \<open>
  C10. Every message the loop body sends is a reply to a webhook response: its text is the
  configured prefix followed by the trimmed \<open>replyText\<close>, and its destination is the sender
  when the resolved \<open>sendTo\<close> is \<open>directToSender\<close> and a sender is known, the chat otherwise.
  The sender is unknown exactly for a group message whose key names no participant; so a
  reply resolved to \<open>directToSender\<close> for such a message goes to the original chat.
\<close>

theorem reply_destination_and_text:
  assumes "SendMessage dest txt \<in> set (snd (processMessage env cfgRes userId requestId receivedAt m))"
  shows "\<exists>cfg chat payload resp status.
           cfgRes = Inr cfg \<and> truthyStr (remoteJid (key m)) = Some chat \<and> pChatJid payload = chat \<and>
           fst (callN8n env payload) = Inr (resp, status) \<and>
           txt = reply_prefix (settings cfg) @
                   trim (case truthyStr (replyText resp) of Some x \<Rightarrow> x | None \<Rightarrow> []) \<and>
           dest = destinationOf (resolvedSendTo cfg resp) (senderOf m chat (endsWith chat ''@g.us'')) chat \<and>
           (senderOf m chat (endsWith chat ''@g.us'') = None \<longleftrightarrow>
              endsWith chat ''@g.us'' \<and> truthyStr (participant (key m)) = None) \<and>
           (resolvedSendTo cfg resp = ''directToSender'' \<and>
            senderOf m chat (endsWith chat ''@g.us'') = None \<longrightarrow> dest = chat)"
proof -
  from assms obtain chat where chat: "truthyStr (remoteJid (key m)) = Some chat"
    by (cases "truthyStr (remoteJid (key m))") (simp_all add: processMessage_def)
  from assms chat obtain cfg where cfg: "cfgRes = Inr cfg"
    by (cases cfgRes) (simp_all add: processMessage_def split: if_splits)
  let ?sender = "senderOf m chat (endsWith chat ''@g.us'')"
  from assms chat cfg obtain t where
    "SendMessage dest txt \<in> set (snd (dispatch env cfg chat ?sender requestId
        \<lparr>pRequestId = requestId, pReceivedAt = receivedAt, pChatJid = chat, pSenderJid = ?sender,
         pIsGroup = endsWith chat ''@g.us'', pMessageId = truthyStr (keyId (key m)),
         pMessageTimestamp = messageTimestamp m, pText = Some t\<rparr>))"
    by (auto simp: processMessage_def Let_def snd_bindIO fst_bindIO snd_tryCatch snd_insertLog
        split: if_splits option.splits sum.splits)
  from send_in_dispatch [OF this] obtain resp status where
    "fst (callN8n env \<lparr>pRequestId = requestId, pReceivedAt = receivedAt, pChatJid = chat,
        pSenderJid = ?sender, pIsGroup = endsWith chat ''@g.us'', pMessageId = truthyStr (keyId (key m)),
        pMessageTimestamp = messageTimestamp m, pText = Some t\<rparr>) = Inr (resp, status)"
    and "txt = reply_prefix (settings cfg) @
           trim (case truthyStr (replyText resp) of Some x \<Rightarrow> x | None \<Rightarrow> [])"
    and "dest = destinationOf (resolvedSendTo cfg resp) ?sender chat"
    by blast
  with chat cfg show ?thesis
    by (intro exI [of _ cfg] exI [of _ chat]
        exI [of _ "\<lparr>pRequestId = requestId, pReceivedAt = receivedAt, pChatJid = chat,
        pSenderJid = ?sender, pIsGroup = endsWith chat ''@g.us'', pMessageId = truthyStr (keyId (key m)),
        pMessageTimestamp = messageTimestamp m, pText = Some t\<rparr>"]
        exI [of _ resp] exI [of _ status])
      (auto simp: senderOf_def destinationOf_def)
qed

text \<open>
  An instance: a group message without a participant, under a configuration that replies to
  the sender; the reply, trimmed and prefixed, goes to the group.
\<close>

theorem reply_destination_and_text_witness:
  "SendMessage ''g@g.us'' ''> hi'' \<in>
     set (snd (processMessage sampleEnv (Inr cfgDirect) (Some ''me@s.whatsapp.net'') ''req-1''
       ''2026-01-01T00:00:00.000Z'' groupMessage)) \<and>
   reply_send_to (settings cfgDirect) = ''directToSender'' \<and>
   participant (key groupMessage) = None \<and>
   remoteJid (key groupMessage) = Some ''g@g.us'' \<and>
   (\<exists>resp :: N8nWebhookResponse. ''> hi'' = reply_prefix (settings cfgDirect) @
      trim (case truthyStr (replyText resp) of Some x \<Rightarrow> x | None \<Rightarrow> []))"
proof -
  have mem: "SendMessage ''g@g.us'' ''> hi'' \<in>
     set (snd (processMessage sampleEnv (Inr cfgDirect) (Some ''me@s.whatsapp.net'') ''req-1''
       ''2026-01-01T00:00:00.000Z'' groupMessage))"
    by (simp add: processMessage_def dispatch_def callN8n_def insertLog_def sockSendMessage_def
      bindIO_def tryCatch_def emit_def returnIO_def sampleEnv_def cfgDirect_def groupMessage_def
      msgMention_def shouldAutomate_def resolveFinalGroupRule_def extractText_def orElse_def
      truthyStr_def endsWith_def senderOf_def ok_def trim_def isWhiteSpace_def
      destinationOf_def resolvedSendTo_def outboundLog_def Let_def)
  from reply_destination_and_text [OF mem]
  obtain cfg and resp :: N8nWebhookResponse where c: "(Inr cfgDirect :: string + RuntimeConfig) = Inr cfg"
    and t: "''> hi'' = reply_prefix (settings cfg) @
      trim (case truthyStr (replyText resp) of Some x \<Rightarrow> x | None \<Rightarrow> [])"
    by blast
  from c have "cfg = cfgDirect" by simp
  with t have "\<exists>resp :: N8nWebhookResponse. ''> hi'' = reply_prefix (settings cfgDirect) @
      trim (case truthyStr (replyText resp) of Some x \<Rightarrow> x | None \<Rightarrow> [])"
    by blast
  with mem show ?thesis
    by (simp add: cfgDirect_def groupMessage_def)
qed

end
